theory Spec2Isabelle
  imports Complex_Main "HOL-Library.AList"
begin

section \<open>Python values handled by the containers\<close>

text \<open>
  The containers of \<^verbatim>\<open>mypet/parameter.py\<close> hold arbitrary Python objects. The model
  keeps the objects the module itself distinguishes: \<^verbatim>\<open>None\<close>, the scalar types, numpy arrays
  (dtype, shape, flattened elements and the \<^verbatim>\<open>flags.writeable\<close> bit that
  \<^verbatim>\<open>_convert_data\<close> clears), plain lists (an object no numpy dtype describes), the two
  pandas table classes, and the byte string that \<^verbatim>\<open>pickle.dumps\<close> returns for an object.
  Floats are payloads only: no arithmetic is performed on them anywhere in the module.
\<close>

datatype npdtype = Dt_int | Dt_float | Dt_bool | Dt_str | Dt_object

datatype pyval =
    PNone
  | PInt int
  | PFloat real
  | PBool bool
  | PStr string
  | PArray npdtype "nat list" "pyval list" bool
  | PList "pyval list"
  | PObjectTable "(string \<times> pyval list) list"
  | PDataFrame "(string \<times> pyval list) list"
  | PPickle pyval

datatype pytype =
    T_NoneType | T_int | T_float | T_bool | T_str | T_ndarray | T_list
  | T_ObjectTable | T_DataFrame

text \<open>Python's \<^verbatim>\<open>type(v)\<close>. A pickle dump is a \<^verbatim>\<open>str\<close>.\<close>

fun py_type :: "pyval \<Rightarrow> pytype" where
  "py_type PNone = T_NoneType"
| "py_type (PInt i) = T_int"
| "py_type (PFloat x) = T_float"
| "py_type (PBool b) = T_bool"
| "py_type (PStr s) = T_str"
| "py_type (PArray d sh xs w) = T_ndarray"
| "py_type (PList xs) = T_list"
| "py_type (PObjectTable t) = T_ObjectTable"
| "py_type (PDataFrame t) = T_DataFrame"
| "py_type (PPickle v) = T_str"

text \<open>
  \<^verbatim>\<open>pickle.dumps\<close> and \<^verbatim>\<open>pickle.loads\<close> of the standard library: the dump of an object is a
  string from which \<^verbatim>\<open>loads\<close> rebuilds the object; any other value is not a dump.
\<close>

datatype error =
    ParameterLockedException
  | AttributeError_explored_array
  | AttributeError_unsupported_data_type
  | TypeError_already_explored
  | NameError_key
  | TypeError_not_same_type
  | TypeError_shrink_empty
  | ValueError_parameter_access
  | IndexError
  | KeyError
  | UnpicklingError
  | AssertionError
  | ValueError_Info_reserved
  | TypeError_result_not_supported
  | AttributeError_not_part_of_result

definition pickle_dumps :: "pyval \<Rightarrow> pyval" where
  "pickle_dumps v = PPickle v"

fun pickle_loads :: "pyval \<Rightarrow> error + pyval" where
  "pickle_loads (PPickle v) = Inr v"
| "pickle_loads v = Inl UnpicklingError"

section \<open>Names\<close>

text \<open>\<^verbatim>\<open>fullname.split('.')\<close> and \<^verbatim>\<open>'.'.join(split_name)\<close>.\<close>

fun split_on :: "char \<Rightarrow> string \<Rightarrow> string list" where
  "split_on c [] = [[]]"
| "split_on c (x # xs) =
     (if x = c then [] # split_on c xs
      else (case split_on c xs of
              [] \<Rightarrow> [[x]]
            | w # ws \<Rightarrow> (x # w) # ws))"

fun join :: "string \<Rightarrow> string list \<Rightarrow> string" where
  "join sep [] = []"
| "join sep [w] = w"
| "join sep (w # ws) = w @ sep @ join sep ws"

text \<open>\<^verbatim>\<open>split_name.pop()\<close> returns the last element and leaves the others.\<close>

definition leaf_name :: "string \<Rightarrow> string" where
  "leaf_name fullname = (case rev (split_on CHR ''.'' fullname) of [] \<Rightarrow> [] | w # ws \<Rightarrow> w)"

definition location_of :: "string \<Rightarrow> string" where
  "location_of fullname =
     (case rev (split_on CHR ''.'' fullname) of [] \<Rightarrow> [] | w # ws \<Rightarrow> join ''.'' (rev ws))"

section \<open>The classifier\<close>

text \<open>
  The local variable \<^verbatim>\<open>dtype\<close> of \<^verbatim>\<open>_is_supported_data\<close> is either a numpy dtype or a
  Python type. For an array it is the array's dtype, replaced by \<^verbatim>\<open>np.str\<close> (Python's
  \<^verbatim>\<open>str\<close>) when it is a string dtype; for anything else it is \<^verbatim>\<open>type(data)\<close>.
\<close>

datatype kind = K_type pytype | K_dtype npdtype

fun data_dtype :: "pyval \<Rightarrow> kind" where
  "data_dtype (PArray d sh xs w) = (if d = Dt_str then K_type T_str else K_dtype d)"
| "data_dtype v = K_type (py_type v)"

text \<open>
  Modelled from the spec: \<^verbatim>\<open>globally.PARAMETER_SUPPORTED_DATA\<close>, a constant of the module
  \<^verbatim>\<open>mypet.globally\<close>. The spec gives the closed set Int, Float, Bool, String and arrays of
  these. Every operation below takes the table as its first argument; this constant is only
  used to run the operations on concrete inputs.
\<close>

definition PARAMETER_SUPPORTED_DATA :: "kind list" where
  "PARAMETER_SUPPORTED_DATA =
     [K_type T_int, K_type T_float, K_type T_bool, K_type T_str,
      K_dtype Dt_int, K_dtype Dt_float, K_dtype Dt_bool]"

datatype pclass = Parameter | PickleParameter

text \<open>\<^verbatim>\<open>Parameter._is_supported_data\<close>: \<^verbatim>\<open>dtype in globally.PARAMETER_SUPPORTED_DATA\<close>.\<close>

definition Parameter_is_supported_data :: "kind list \<Rightarrow> pyval \<Rightarrow> bool" where
  "Parameter_is_supported_data S data = (data_dtype data \<in> set S)"

text \<open>The method as dispatched on the class: \<^verbatim>\<open>PickleParameter\<close> returns \<^verbatim>\<open>True\<close>.\<close>

definition is_supported_data :: "kind list \<Rightarrow> pclass \<Rightarrow> pyval \<Rightarrow> bool" where
  "is_supported_data S c data =
     (case c of PickleParameter \<Rightarrow> True | Parameter \<Rightarrow> Parameter_is_supported_data S data)"

text \<open>
  \<^verbatim>\<open>_values_of_same_type\<close> compares \<^verbatim>\<open>type(val1)\<close> with \<^verbatim>\<open>np.array\<close>. \<^verbatim>\<open>np.array\<close> is
  numpy's array-building function, not a class, so no \<^verbatim>\<open>type(...)\<close> is equal to it.
\<close>

definition equals_np_array :: "pytype \<Rightarrow> bool" where
  "equals_np_array t = False"

fun array_dtype :: "pyval \<Rightarrow> npdtype option" where
  "array_dtype (PArray d sh xs w) = Some d"
| "array_dtype v = None"

fun np_shape :: "pyval \<Rightarrow> nat list" where
  "np_shape (PArray d sh xs w) = sh"
| "np_shape v = []"

definition values_of_same_type :: "pyval \<Rightarrow> pyval \<Rightarrow> bool" where
  "values_of_same_type val1 val2 =
     (if \<not> (py_type val1 = py_type val2) then False
      else if equals_np_array (py_type val1)
      then (if \<not> (array_dtype val1 = array_dtype val2) then False
            else if \<not> (np_shape val1 = np_shape val2) then False
            else True)
      else True)"

text \<open>\<^verbatim>\<open>_convert_data\<close>: an array is made read-only, anything else is returned as it is.\<close>

fun convert_data :: "pyval \<Rightarrow> pyval" where
  "convert_data (PArray d sh xs w) = PArray d sh xs False"
| "convert_data v = v"

section \<open>The Parameter container\<close>

text \<open>
  \<^verbatim>\<open>_explored_data\<close> is a tuple, except after \<^verbatim>\<open>shrink\<close>, which assigns the empty dict.
\<close>

datatype explored = Tuple "pyval list" | Dict_empty

fun explored_items :: "explored \<Rightarrow> pyval list" where
  "explored_items (Tuple xs) = xs"
| "explored_items Dict_empty = []"

text \<open>
  \<^verbatim>\<open>self._explored_data[n]\<close>: a tuple counts a negative index from its end and raises
  IndexError out of range; the empty dict raises KeyError for every key.
\<close>

fun getitem :: "explored \<Rightarrow> int \<Rightarrow> error + pyval" where
  "getitem (Tuple xs) n =
     (if 0 \<le> n \<and> n < int (length xs) then Inr (xs ! nat n)
      else if - int (length xs) \<le> n \<and> n < 0 then Inr (xs ! nat (int (length xs) + n))
      else Inl IndexError)"
| "getitem Dict_empty n = Inl KeyError"

record parameter =
  p_class :: pclass
  p_fullname :: string
  p_name :: string
  p_location :: string
  p_comment :: "string option"
  p_length :: nat
  p_locked :: bool
  p_data :: pyval
  p_explored_data :: explored
  p_fullcopy :: bool

type_synonym 'a action = "parameter \<Rightarrow> (error + 'a) \<times> parameter"

definition len :: "parameter \<Rightarrow> nat" where
  "len p = p_length p"

definition is_array :: "parameter \<Rightarrow> bool" where
  "is_array p = (len p > 1)"

definition is_locked :: "parameter \<Rightarrow> bool" where
  "is_locked p = p_locked p"

definition is_empty :: "parameter \<Rightarrow> bool" where
  "is_empty p = (len p = 0)"

definition lock :: "parameter \<Rightarrow> parameter" where
  "lock p = p\<lparr>p_locked := True\<rparr>"

definition unlock :: "parameter \<Rightarrow> parameter" where
  "unlock p = p\<lparr>p_locked := False\<rparr>"

definition Parameter_set :: "kind list \<Rightarrow> pyval \<Rightarrow> unit action" where
  "Parameter_set S data p =
     (if is_locked p then (Inl ParameterLockedException, p)
      else if is_array p then (Inl AttributeError_explored_array, p)
      else (let val = convert_data data in
            if \<not> is_supported_data S (p_class p) val
            then (Inl AttributeError_unsupported_data_type, p)
            else (Inr (), p\<lparr>p_data := val, p_length := 1\<rparr>)))"

text \<open>
  \<^verbatim>\<open>BaseParameter.__init__\<close> followed by \<^verbatim>\<open>Parameter.__init__\<close>. The argument
  \<^verbatim>\<open>data=None\<close> is \<^term>\<open>PNone\<close>; a constructor whose \<^verbatim>\<open>set\<close> raises builds no object.
\<close>

definition BaseParameter_init :: "pclass \<Rightarrow> string \<Rightarrow> parameter" where
  "BaseParameter_init c fullname =
     \<lparr>p_class = c, p_fullname = fullname, p_name = leaf_name fullname,
      p_location = location_of fullname, p_comment = Some [], p_length = 0,
      p_locked = False, p_data = PNone, p_explored_data = Tuple [], p_fullcopy = False\<rparr>"

definition Parameter_init ::
  "kind list \<Rightarrow> pclass \<Rightarrow> string \<Rightarrow> pyval \<Rightarrow> string option \<Rightarrow> error + parameter" where
  "Parameter_init S c fullname data comment =
     (let p = (BaseParameter_init c fullname)
                \<lparr>p_comment := comment, p_data := PNone, p_explored_data := Tuple []\<rparr> in
      if \<not> (data = PNone)
      then (case Parameter_set S data p of
              (Inl e, p') \<Rightarrow> Inl e
            | (Inr u, p') \<Rightarrow> Inr (p'\<lparr>p_fullcopy := False\<rparr>))
      else Inr (p\<lparr>p_fullcopy := False\<rparr>))"

text \<open>
  \<^verbatim>\<open>__getstate__\<close> copies the attribute dict and, unless \<^verbatim>\<open>_fullcopy\<close> is set, replaces
  \<^verbatim>\<open>_explored_data\<close> by the empty tuple (the logger it deletes is not part of the model).
  \<^verbatim>\<open>__setstate__\<close> on the object that unpickling creates installs that dict.
\<close>

definition getstate :: "parameter \<Rightarrow> parameter" where
  "getstate p = (if \<not> p_fullcopy p then p\<lparr>p_explored_data := Tuple []\<rparr> else p)"

definition setstate :: "parameter \<Rightarrow> parameter" where
  "setstate statedict = statedict"

definition set_parameter_access :: "int \<Rightarrow> unit action" where
  "set_parameter_access n p =
     (if n \<ge> int (len p) \<and> is_array p then (Inl ValueError_parameter_access, p)
      else (case getitem (p_explored_data p) n of
              Inl e \<Rightarrow> (Inl e, p)
            | Inr v \<Rightarrow> (Inr (), p\<lparr>p_data := v\<rparr>)))"

definition add_comment :: "string \<Rightarrow> parameter \<Rightarrow> parameter" where
  "add_comment comment p =
     (case p_comment p of
        None \<Rightarrow> p\<lparr>p_comment := Some comment\<rparr>
      | Some old \<Rightarrow> p\<lparr>p_comment := Some (old @ [CHR '';'', CHR 0x0A, CHR '' ''] @ comment)\<rparr>)"

text \<open>
  The loop of \<^verbatim>\<open>_data_sanity_checks\<close>, with \<^verbatim>\<open>data_tuple\<close> as accumulator. The first
  \<^verbatim>\<open>raise\<close> formats its message with the name \<^verbatim>\<open>key\<close>, which is bound nowhere in the
  module: evaluating the message raises NameError before the TypeError is built.
\<close>

fun sanity_loop ::
  "kind list \<Rightarrow> pclass \<Rightarrow> pyval \<Rightarrow> pyval list \<Rightarrow> pyval list \<Rightarrow> error + pyval list" where
  "sanity_loop S c default_val [] data_tuple = Inr data_tuple"
| "sanity_loop S c default_val (val # rest) data_tuple =
     (let newval = convert_data val in
      if \<not> is_supported_data S c newval then Inl NameError_key
      else if \<not> values_of_same_type newval default_val then Inl TypeError_not_same_type
      else sanity_loop S c default_val rest (data_tuple @ [newval]))"

definition data_sanity_checks :: "kind list \<Rightarrow> parameter \<Rightarrow> pyval list \<Rightarrow> error + pyval list" where
  "data_sanity_checks S p data_list = sanity_loop S (p_class p) (p_data p) data_list []"

definition explore :: "kind list \<Rightarrow> pyval list \<Rightarrow> unit action" where
  "explore S explore_list p =
     (if is_locked p then (Inl ParameterLockedException, p)
      else if is_array p then (Inl TypeError_already_explored, p)
      else (case data_sanity_checks S p explore_list of
              Inl e \<Rightarrow> (Inl e, p)
            | Inr data_tuple \<Rightarrow>
                (Inr (), lock (p\<lparr>p_length := length data_tuple,
                                 p_explored_data := Tuple data_tuple\<rparr>))))"

definition set_full_copy :: "bool \<Rightarrow> parameter \<Rightarrow> parameter" where
  "set_full_copy val p = p\<lparr>p_fullcopy := val\<rparr>"

definition get :: "pyval action" where
  "get p = (let p' = lock p in (Inr (p_data p'), p'))"

text \<open>
  \<^verbatim>\<open>to_str\<close> reads the value through \<^verbatim>\<open>get()\<close> and restores the lock flag in its
  \<^verbatim>\<open>finally\<close> clause. This is the state it leaves; the string it returns is not modelled.
\<close>

definition to_str_state :: "parameter \<Rightarrow> parameter" where
  "to_str_state p = (let old_locked = p_locked p in (snd (get p))\<lparr>p_locked := old_locked\<rparr>)"

definition shrink :: "unit action" where
  "shrink p =
     (if is_empty p then (Inl TypeError_shrink_empty, p)
      else if is_locked p then (Inl ParameterLockedException, p)
      else (Inr (), p\<lparr>p_explored_data := Dict_empty, p_length := 1\<rparr>))"

definition Parameter_empty :: "unit action" where
  "Parameter_empty p =
     (if is_locked p then (Inl ParameterLockedException, p)
      else (case shrink p of
              (Inl e, p') \<Rightarrow> (Inl e, p')
            | (Inr u, p') \<Rightarrow> (Inr (), p'\<lparr>p_data := PNone, p_length := 0\<rparr>)))"

section \<open>Storage records\<close>

text \<open>
  An \<^verbatim>\<open>ObjectTable\<close> is built from a dict of column name to sequence and holds the values
  as they are; the record handed to the storage service is a dict of name to table. Both
  are association lists, looked up with \<^const>\<open>map_of\<close>. A missing key raises KeyError, row 0
  of a column without rows raises IndexError.
\<close>

type_synonym ObjectTable = "(string \<times> pyval list) list"
type_synonym store_dict = "(string \<times> ObjectTable) list"

definition Parameter_store :: "parameter \<Rightarrow> store_dict" where
  "Parameter_store p =
     [(''Data'', [(''data'', [p_data p])])] @
     (if is_array p then [(''ExploredData'', [(''data'', explored_items (p_explored_data p))])]
      else [])"

definition Parameter_load :: "store_dict \<Rightarrow> unit action" where
  "Parameter_load load_dict p =
     (case map_of load_dict ''Data'' of
        None \<Rightarrow> (Inl KeyError, p)
      | Some data_table \<Rightarrow>
          (case map_of data_table ''data'' of
             None \<Rightarrow> (Inl KeyError, p)
           | Some [] \<Rightarrow> (Inl IndexError, p)
           | Some (v # vs) \<Rightarrow>
               (let p1 = p\<lparr>p_data := v\<rparr> in
                case map_of load_dict ''ExploredData'' of
                  Some explore_table \<Rightarrow>
                    (case map_of explore_table ''data'' of
                       None \<Rightarrow> (Inl KeyError, p1)
                     | Some col \<Rightarrow>
                         (Inr (), p1\<lparr>p_explored_data := Tuple col, p_length := length col\<rparr>))
                | None \<Rightarrow> (Inr (), p1\<lparr>p_length := 1\<rparr>))))"

subsection \<open>PickleParameter\<close>

definition PickleParameter_identifier :: string where
  "PickleParameter_identifier = ''__pckl__''"

text \<open>\<^verbatim>\<open>identifier in data_name\<close>: Python's substring test.\<close>

fun starts_with :: "string \<Rightarrow> string \<Rightarrow> bool" where
  "starts_with [] s = True"
| "starts_with (a # as) [] = False"
| "starts_with (a # as) (b # bs) = (a = b \<and> starts_with as bs)"

fun contains :: "string \<Rightarrow> string \<Rightarrow> bool" where
  "contains sub [] = starts_with sub []"
| "contains sub (b # bs) = (starts_with sub (b # bs) \<or> contains sub bs)"

definition PickleParameter_store :: "kind list \<Rightarrow> parameter \<Rightarrow> store_dict" where
  "PickleParameter_store S p =
     (if \<not> Parameter_is_supported_data S (p_data p)
      then [(''Data'', [(''data'' @ PickleParameter_identifier, [pickle_dumps (p_data p)])])] @
           (if is_array p
            then [(''ExploredData'',
                   [(''data'' @ PickleParameter_identifier, map pickle_dumps (explored_items (p_explored_data p)))])]
            else [])
      else Parameter_store p)"

text \<open>The loop of \<^verbatim>\<open>PickleParameter.__load__\<close> over the pickled column.\<close>

fun loads_loop :: "pyval list \<Rightarrow> pyval list \<Rightarrow> error + pyval list" where
  "loads_loop [] explore_list = Inr explore_list"
| "loads_loop (dump # rest) explore_list =
     (case pickle_loads dump of
        Inl e \<Rightarrow> Inl e
      | Inr v \<Rightarrow> loads_loop rest (explore_list @ [v]))"

definition PickleParameter_load :: "store_dict \<Rightarrow> unit action" where
  "PickleParameter_load load_dict p =
     (case map_of load_dict ''Data'' of
        None \<Rightarrow> (Inl KeyError, p)
      | Some data_table \<Rightarrow>
          (case map fst data_table of
             [] \<Rightarrow> (Inl IndexError, p)
           | data_name # names \<Rightarrow>
               if contains PickleParameter_identifier data_name
               then (case map_of data_table (''data'' @ PickleParameter_identifier) of
                       None \<Rightarrow> (Inl KeyError, p)
                     | Some [] \<Rightarrow> (Inl IndexError, p)
                     | Some (dump # dumps) \<Rightarrow>
                         (case pickle_loads dump of
                            Inl e \<Rightarrow> (Inl e, p)
                          | Inr v \<Rightarrow>
                              (let p1 = p\<lparr>p_data := v\<rparr> in
                               case map_of load_dict ''ExploredData'' of
                                 Some explore_table \<Rightarrow>
                                   (case map_of explore_table (''data'' @ PickleParameter_identifier) of
                                      None \<Rightarrow> (Inl KeyError, p1)
                                    | Some pickle_col \<Rightarrow>
                                        (case loads_loop pickle_col [] of
                                           Inl e \<Rightarrow> (Inl e, p1)
                                         | Inr explore_list \<Rightarrow>
                                             (Inr (), p1\<lparr>p_explored_data := Tuple explore_list,
                                                         p_length := length explore_list\<rparr>)))
                               | None \<Rightarrow> (Inr (), p1))))
               else Parameter_load load_dict p))"

text \<open>\<^verbatim>\<open>__store__\<close> and \<^verbatim>\<open>__load__\<close> as dispatched on the class of the object.\<close>

definition store :: "kind list \<Rightarrow> parameter \<Rightarrow> store_dict" where
  "store S p =
     (case p_class p of Parameter \<Rightarrow> Parameter_store p | PickleParameter \<Rightarrow> PickleParameter_store S p)"

definition load :: "store_dict \<Rightarrow> unit action" where
  "load load_dict p =
     (case p_class p of
        Parameter \<Rightarrow> Parameter_load load_dict p
      | PickleParameter \<Rightarrow> PickleParameter_load load_dict p)"

section \<open>Sequences of calls on one container\<close>

text \<open>
  A call on a container either returns or raises; either way the object is left in some
  state, and the next call starts from it. \<^verbatim>\<open>__store__\<close> reads only.
\<close>

datatype call =
    Call_set pyval
  | Call_explore "pyval list"
  | Call_get
  | Call_lock
  | Call_unlock
  | Call_set_parameter_access int
  | Call_shrink
  | Call_empty
  | Call_store
  | Call_load store_dict
  | Call_set_full_copy bool
  | Call_add_comment string
  | Call_to_str

fun after_call :: "kind list \<Rightarrow> call \<Rightarrow> parameter \<Rightarrow> parameter" where
  "after_call S (Call_set v) p = snd (Parameter_set S v p)"
| "after_call S (Call_explore vs) p = snd (explore S vs p)"
| "after_call S Call_get p = snd (get p)"
| "after_call S Call_lock p = lock p"
| "after_call S Call_unlock p = unlock p"
| "after_call S (Call_set_parameter_access n) p = snd (set_parameter_access n p)"
| "after_call S Call_shrink p = snd (shrink p)"
| "after_call S Call_empty p = snd (Parameter_empty p)"
| "after_call S Call_store p = p"
| "after_call S (Call_load d) p = snd (load d p)"
| "after_call S (Call_set_full_copy b) p = set_full_copy b p"
| "after_call S (Call_add_comment c) p = add_comment c p"
| "after_call S Call_to_str p = to_str_state p"

fun after_calls :: "kind list \<Rightarrow> call list \<Rightarrow> parameter \<Rightarrow> parameter" where
  "after_calls S [] p = p"
| "after_calls S (c # cs) p = after_calls S cs (after_call S c p)"

section \<open>SimpleResult\<close>

record simple_result =
  r_fullname :: string
  r_name :: string
  r_location :: string
  r_data :: "(string \<times> pyval) list"
  r_comment :: pyval

text \<open>\<^verbatim>\<open>str(idx)\<close> for the index of \<^verbatim>\<open>enumerate\<close>.\<close>

function str_nat :: "nat \<Rightarrow> string" where
  "str_nat n =
     (if n < 10 then [''0123456789'' ! n]
      else str_nat (n div 10) @ [''0123456789'' ! (n mod 10)])"
  by pat_completeness auto
termination
  by (relation "measure id") auto

declare str_nat.simps [simp del]

text \<open>\<^verbatim>\<open>isinstance(item, (np.ndarray, ObjectTable, DataFrame))\<close>.\<close>

definition is_bulk_item :: "pyval \<Rightarrow> bool" where
  "is_bulk_item item = (py_type item \<in> set [T_ndarray, T_ObjectTable, T_DataFrame])"

text \<open>
  \<^verbatim>\<open>set_single\<close>: the three \<^verbatim>\<open>if\<close> statements follow one another, so a comment name
  falls through to the checks of a data item after the comment is assigned.
\<close>

definition set_single ::
  "string \<Rightarrow> pyval \<Rightarrow> simple_result \<Rightarrow> (error + unit) \<times> simple_result" where
  "set_single name item r =
     (if name \<in> set [''comment'', ''Comment''] \<and> \<not> (py_type item = T_str)
      then (Inl AssertionError, r)
      else (let r1 = (if name \<in> set [''comment'', ''Comment''] then r\<lparr>r_comment := item\<rparr> else r) in
            if name = ''Info'' then (Inl ValueError_Info_reserved, r1)
            else if is_bulk_item item
            then (Inr (), r1\<lparr>r_data := AList.update name item (r_data r1)\<rparr>)
            else (Inl TypeError_result_not_supported, r1)))"

fun set_args ::
  "nat \<Rightarrow> pyval list \<Rightarrow> simple_result \<Rightarrow> (error + unit) \<times> simple_result" where
  "set_args idx [] r = (Inr (), r)"
| "set_args idx (arg # args) r =
     (case set_single (''res'' @ str_nat idx) arg r of
        (Inl e, r') \<Rightarrow> (Inl e, r')
      | (Inr u, r') \<Rightarrow> set_args (Suc idx) args r')"

fun set_kwargs ::
  "(string \<times> pyval) list \<Rightarrow> simple_result \<Rightarrow> (error + unit) \<times> simple_result" where
  "set_kwargs [] r = (Inr (), r)"
| "set_kwargs ((key, arg) # kwargs) r =
     (case set_single key arg r of
        (Inl e, r') \<Rightarrow> (Inl e, r')
      | (Inr u, r') \<Rightarrow> set_kwargs kwargs r')"

definition SimpleResult_set ::
  "pyval list \<Rightarrow> (string \<times> pyval) list \<Rightarrow> simple_result \<Rightarrow> (error + unit) \<times> simple_result" where
  "SimpleResult_set args kwargs r =
     (case set_args 0 args r of
        (Inl e, r') \<Rightarrow> (Inl e, r')
      | (Inr u, r') \<Rightarrow> set_kwargs kwargs r')"

text \<open>
  \<^verbatim>\<open>SimpleResult.__init__\<close>: the keyword arguments are a dict, given here in the order in
  which \<^verbatim>\<open>items()\<close> lists them; \<^verbatim>\<open>kwargs.pop('comment', None)\<close> takes the comment out
  before \<^verbatim>\<open>set\<close> sees them.
\<close>

definition SimpleResult_init ::
  "string \<Rightarrow> pyval list \<Rightarrow> (string \<times> pyval) list \<Rightarrow> error + simple_result" where
  "SimpleResult_init fullname args kwargs =
     (let r = \<lparr>r_fullname = fullname, r_name = leaf_name fullname,
                r_location = location_of fullname, r_data = [],
                r_comment = (case map_of kwargs ''comment'' of None \<Rightarrow> PNone | Some c \<Rightarrow> c)\<rparr> in
      case SimpleResult_set args (AList.delete ''comment'' kwargs) r of
        (Inl e, r') \<Rightarrow> Inl e
      | (Inr u, r') \<Rightarrow> Inr r')"

text \<open>\<^verbatim>\<open>__getattr__\<close> on a constructed result.\<close>

definition SimpleResult_getattr :: "string \<Rightarrow> simple_result \<Rightarrow> error + pyval" where
  "SimpleResult_getattr name r =
     (if name \<in> set [''Comment'', ''comment''] then Inr (r_comment r)
      else (case map_of (r_data r) name of
              None \<Rightarrow> Inl AttributeError_not_part_of_result
            | Some item \<Rightarrow> Inr item))"

section \<open>Concrete containers\<close>

text \<open>\<^verbatim>\<open>Parameter('x')\<close>, \<^verbatim>\<open>Parameter('x', 1.0)\<close> and the latter after
  \<^verbatim>\<open>explore([1.0, 2.0, 3.0])\<close>.\<close>

definition fresh_x :: parameter where
  "fresh_x =
     \<lparr>p_class = Parameter, p_fullname = ''x'', p_name = ''x'', p_location = [],
      p_comment = None, p_length = 0, p_locked = False, p_data = PNone,
      p_explored_data = Tuple [], p_fullcopy = False\<rparr>"

definition single_x :: parameter where
  "single_x = fresh_x\<lparr>p_data := PFloat 1, p_length := 1\<rparr>"

definition explored_x :: parameter where
  "explored_x =
     single_x\<lparr>p_length := 3, p_explored_data := Tuple [PFloat 1, PFloat 2, PFloat 3],
              p_locked := True\<rparr>"

text \<open>The copy of \<^term>\<open>explored_x\<close> that a worker process unpickles.\<close>

definition worker_x :: parameter where
  "worker_x = setstate (getstate explored_x)"

text \<open>\<^verbatim>\<open>Parameter('x', np.array([1.0, 2.0]))\<close>, \<^verbatim>\<open>PickleParameter('x', [1, 2])\<close> and
  \<^verbatim>\<open>PickleParameter('x')\<close>.\<close>

definition array_x :: parameter where
  "array_x = fresh_x\<lparr>p_data := PArray Dt_float [2] [PFloat 1, PFloat 2] False, p_length := 1\<rparr>"

definition pickle_x :: parameter where
  "pickle_x = fresh_x\<lparr>p_class := PickleParameter, p_data := PList [PInt 1, PInt 2], p_length := 1\<rparr>"

definition fresh_pickle_x :: parameter where
  "fresh_pickle_x = fresh_x\<lparr>p_class := PickleParameter\<rparr>"

section \<open>Facts about the concrete containers\<close>

lemmas parameter_defs =
  len_def is_array_def is_locked_def is_empty_def lock_def unlock_def

lemmas classifier_defs =
  is_supported_data_def Parameter_is_supported_data_def PARAMETER_SUPPORTED_DATA_def
  values_of_same_type_def equals_np_array_def

lemma fresh_x_init: "Parameter_init S Parameter ''x'' PNone None = Inr fresh_x"
  by (simp add: Parameter_init_def BaseParameter_init_def fresh_x_def leaf_name_def location_of_def)

lemma single_x_init:
  "Parameter_init PARAMETER_SUPPORTED_DATA Parameter ''x'' (PFloat 1) None = Inr single_x"
  by (simp add: Parameter_init_def BaseParameter_init_def fresh_x_def single_x_def
      leaf_name_def location_of_def Parameter_set_def parameter_defs is_supported_data_def
      Parameter_is_supported_data_def PARAMETER_SUPPORTED_DATA_def)

lemma array_x_init:
  "Parameter_init PARAMETER_SUPPORTED_DATA Parameter ''x''
     (PArray Dt_float [2] [PFloat 1, PFloat 2] True) None = Inr array_x"
  by (simp add: Parameter_init_def BaseParameter_init_def fresh_x_def array_x_def
      leaf_name_def location_of_def Parameter_set_def parameter_defs classifier_defs)

lemma pickle_x_init:
  "Parameter_init S PickleParameter ''x'' (PList [PInt 1, PInt 2]) None = Inr pickle_x"
  by (simp add: Parameter_init_def BaseParameter_init_def fresh_x_def pickle_x_def
      leaf_name_def location_of_def Parameter_set_def parameter_defs classifier_defs)

lemma fresh_pickle_x_init:
  "Parameter_init S PickleParameter ''x'' PNone None = Inr fresh_pickle_x"
  by (simp add: Parameter_init_def BaseParameter_init_def fresh_x_def fresh_pickle_x_def
      leaf_name_def location_of_def)

lemma worker_x_eq:
  "worker_x = explored_x\<lparr>p_explored_data := Tuple []\<rparr>"
  by (simp add: worker_x_def setstate_def getstate_def explored_x_def single_x_def fresh_x_def)

lemma to_str_state_id: "to_str_state p = p"
  by (simp add: to_str_state_def get_def lock_def)

lemma explored_x_explore:
  "explore PARAMETER_SUPPORTED_DATA [PFloat 1, PFloat 2, PFloat 3] single_x = (Inr (), explored_x)"
  by (simp add: explore_def data_sanity_checks_def fresh_x_def single_x_def explored_x_def
      parameter_defs is_supported_data_def values_of_same_type_def Let_def equals_np_array_def
      Parameter_is_supported_data_def PARAMETER_SUPPORTED_DATA_def)

section \<open>Reading a value\<close>

text \<open>
  Claim C7. For every unlocked single-value Parameter, \<^verbatim>\<open>get()\<close> returns the representative
  value and leaves the container locked (and otherwise as it was); a second \<^verbatim>\<open>get()\<close>
  returns the same value and leaves the container as the first call left it, still locked.
\<close>

theorem get_locks_single_value:
  assumes "\<not> is_locked p" and "len p = 1"
  shows "fst (get p) = Inr (p_data p) \<and> is_locked (snd (get p)) \<and>
         snd (get p) = p\<lparr>p_locked := True\<rparr> \<and>
         get (snd (get p)) = (Inr (p_data p), snd (get p))"
  by (simp add: get_def parameter_defs)

theorem get_locks_single_value_witness:
  "\<not> is_locked single_x \<and> len single_x = 1 \<and>
   fst (get single_x) = Inr (PFloat 1) \<and> is_locked (snd (get single_x)) \<and>
   get (snd (get single_x)) = (Inr (PFloat 1), snd (get single_x))"
proof -
  have h1: "\<not> is_locked single_x" by (simp add: single_x_def fresh_x_def parameter_defs)
  have h2: "len single_x = 1" by (simp add: single_x_def fresh_x_def parameter_defs)
  have d: "p_data single_x = PFloat 1" by (simp add: single_x_def fresh_x_def)
  show ?thesis using get_locks_single_value [OF h1 h2, unfolded d] h1 h2 by blast
qed

section \<open>Exploration is terminal\<close>

text \<open>Every call except \<^verbatim>\<open>unlock()\<close> leaves a locked container locked, whether it
  returns or raises.\<close>

lemma locked_after_call:
  assumes "p_locked p" and "c \<noteq> Call_unlock"
  shows "p_locked (after_call S c p)"
  using assms
  by (cases c)
     (simp_all add: Parameter_set_def explore_def get_def set_parameter_access_def shrink_def
        Parameter_empty_def load_def Parameter_load_def PickleParameter_load_def
        set_full_copy_def add_comment_def to_str_state_def parameter_defs Let_def
        split: sum.splits option.splits list.splits pclass.splits prod.splits)

lemma locked_after_calls:
  assumes "p_locked p" and "Call_unlock \<notin> set cs"
  shows "p_locked (after_calls S cs p)"
  using assms
proof (induction cs arbitrary: p)
  case Nil
  then show ?case by simp
next
  case (Cons c cs)
  from Cons.prems have "p_locked (after_call S c p)"
    by (intro locked_after_call) auto
  with Cons show ?case by simp
qed

lemma explore_success_locked:
  assumes "explore S vs p = (Inr (), p')"
  shows "p_locked p'"
  using assms
  by (auto simp: explore_def parameter_defs split: if_splits sum.splits)

text \<open>
  Claim C3. When \<^verbatim>\<open>explore(vs)\<close> has succeeded the container is locked, and after any
  sequence of further calls none of which is \<^verbatim>\<open>unlock()\<close>, \<^verbatim>\<open>set(v)\<close> and
  \<^verbatim>\<open>explore(ws)\<close> raise ParameterLockedException (the spec's LockedError) for all \<open>v\<close>
  and \<open>ws\<close>, and change nothing.
\<close>

theorem explore_is_terminal:
  assumes "explore S vs p = (Inr (), p')" and "Call_unlock \<notin> set cs"
  shows "is_locked p' \<and>
         Parameter_set S v (after_calls S cs p') =
           (Inl ParameterLockedException, after_calls S cs p') \<and>
         explore S ws (after_calls S cs p') =
           (Inl ParameterLockedException, after_calls S cs p')"
proof -
  have l: "p_locked p'" using assms(1) by (rule explore_success_locked)
  then have "p_locked (after_calls S cs p')" using assms(2) by (rule locked_after_calls)
  with l show ?thesis by (simp add: Parameter_set_def explore_def is_locked_def)
qed

theorem explore_is_terminal_witness:
  "explore PARAMETER_SUPPORTED_DATA [PFloat 1, PFloat 2, PFloat 3] single_x = (Inr (), explored_x) \<and>
   Call_unlock \<notin> set [Call_get, Call_shrink, Call_set_parameter_access 1] \<and>
   is_locked explored_x \<and>
   Parameter_set PARAMETER_SUPPORTED_DATA (PFloat 5)
     (after_calls PARAMETER_SUPPORTED_DATA
        [Call_get, Call_shrink, Call_set_parameter_access 1] explored_x) =
     (Inl ParameterLockedException,
      after_calls PARAMETER_SUPPORTED_DATA
        [Call_get, Call_shrink, Call_set_parameter_access 1] explored_x) \<and>
   explore PARAMETER_SUPPORTED_DATA [PFloat 7]
     (after_calls PARAMETER_SUPPORTED_DATA
        [Call_get, Call_shrink, Call_set_parameter_access 1] explored_x) =
     (Inl ParameterLockedException,
      after_calls PARAMETER_SUPPORTED_DATA
        [Call_get, Call_shrink, Call_set_parameter_access 1] explored_x)"
proof -
  have h: "Call_unlock \<notin> set [Call_get, Call_shrink, Call_set_parameter_access 1]" by simp
  show ?thesis
    using explore_is_terminal [OF explored_x_explore h] explored_x_explore h by blast
qed

section \<open>Store and load\<close>

text \<open>
  A container that is an array holds as many explored values as its length says. Every
  call on the container keeps this; only the snapshot of \<^const>\<open>getstate\<close> without
  \<^verbatim>\<open>_fullcopy\<close> breaks it, by design: it keeps the length and drops the values.
\<close>

lemma explored_held_after_call:
  assumes "is_array p \<Longrightarrow> length (explored_items (p_explored_data p)) = len p"
    and "is_array (after_call S c p)"
  shows "length (explored_items (p_explored_data (after_call S c p))) = len (after_call S c p)"
  using assms
  by (cases c)
     (auto simp: Parameter_set_def explore_def get_def set_parameter_access_def shrink_def
        Parameter_empty_def load_def Parameter_load_def PickleParameter_load_def
        set_full_copy_def add_comment_def to_str_state_def parameter_defs Let_def
        split: sum.splits option.splits list.splits pclass.splits prod.splits if_splits)

lemma explored_held_after_calls:
  assumes "is_array p \<Longrightarrow> length (explored_items (p_explored_data p)) = len p"
    and "is_array (after_calls S cs p)"
  shows "length (explored_items (p_explored_data (after_calls S cs p))) = len (after_calls S cs p)"
  using assms
proof (induction cs arbitrary: p)
  case Nil
  then show ?case by simp
next
  case (Cons c cs)
  have "is_array (after_call S c p) \<Longrightarrow>
          length (explored_items (p_explored_data (after_call S c p))) = len (after_call S c p)"
    using Cons.prems(1) by (rule explored_held_after_call)
  then show ?case using Cons.IH [of "after_call S c p"] Cons.prems(2) by simp
qed

text \<open>
  Claim C1, amended. For every Parameter of length 1, and every Parameter of length
  greater than 1 that holds its explored values (as many as its length), loading the record
  produced by \<^verbatim>\<open>__store__\<close> into any Parameter, a fresh one included, succeeds and gives a
  container whose \<^verbatim>\<open>get()\<close> result, \<^verbatim>\<open>is_array()\<close> and length equal those of the original.
\<close>

theorem store_load_round_trip:
  assumes "len p = 1 \<or> (len p > 1 \<and> length (explored_items (p_explored_data p)) = len p)"
  shows "fst (Parameter_load (Parameter_store p) q) = Inr () \<and>
         fst (get (snd (Parameter_load (Parameter_store p) q))) = fst (get p) \<and>
         is_array (snd (Parameter_load (Parameter_store p) q)) = is_array p \<and>
         len (snd (Parameter_load (Parameter_store p) q)) = len p"
  using assms
  by (auto simp: Parameter_load_def Parameter_store_def get_def parameter_defs Let_def)

theorem store_load_round_trip_witness:
  "(len explored_x = 1 \<or>
      (len explored_x > 1 \<and> length (explored_items (p_explored_data explored_x)) = len explored_x)) \<and>
   fst (Parameter_load (Parameter_store explored_x) fresh_x) = Inr () \<and>
   fst (get (snd (Parameter_load (Parameter_store explored_x) fresh_x))) = fst (get explored_x) \<and>
   is_array (snd (Parameter_load (Parameter_store explored_x) fresh_x)) = is_array explored_x \<and>
   len (snd (Parameter_load (Parameter_store explored_x) fresh_x)) = len explored_x"
proof -
  have h: "len explored_x = 1 \<or>
      (len explored_x > 1 \<and> length (explored_items (p_explored_data explored_x)) = len explored_x)"
    by (simp add: explored_x_def single_x_def fresh_x_def parameter_defs)
  show ?thesis using store_load_round_trip [OF h, of fresh_x] h by blast
qed

text \<open>
  C1 as stated fails on the copy of an explored Parameter that a worker unpickles: it has
  length 3 and the value 1.0, its record carries an \<^verbatim>\<open>ExploredData\<close> table without rows, and
  the container loaded from that record has length 0 and is no array.
\<close>

theorem store_load_worker_counterexample:
  "len worker_x = 3 \<and> is_array worker_x \<and> fst (get worker_x) = Inr (PFloat 1) \<and>
   fst (Parameter_load (Parameter_store worker_x) fresh_x) = Inr () \<and>
   len (snd (Parameter_load (Parameter_store worker_x) fresh_x)) = 0 \<and>
   \<not> is_array (snd (Parameter_load (Parameter_store worker_x) fresh_x))"
  by (simp add: worker_x_eq explored_x_def single_x_def fresh_x_def Parameter_load_def
      Parameter_store_def get_def parameter_defs Let_def)

text \<open>
  Claim C10, amended. For every Parameter, an empty one included, the record of
  \<^verbatim>\<open>__store__\<close> has the \<^verbatim>\<open>Data\<close> table with the single \<^verbatim>\<open>data\<close> entry holding the current
  (possibly \<^verbatim>\<open>None\<close>) value. A \<^verbatim>\<open>__load__\<close> that returns sets the length to exactly 1 when
  the record has no \<^verbatim>\<open>ExploredData\<close>, and to the number of rows of its \<^verbatim>\<open>data\<close> column when
  it has. The record of an empty Parameter loads with length 1, so after the round trip
  \<^verbatim>\<open>is_empty()\<close> is false.
\<close>

theorem load_sets_length:
  "map_of (Parameter_store p) ''Data'' = Some [(''data'', [p_data p])] \<and>
   (map_of d ''ExploredData'' = None \<and> fst (Parameter_load d q) = Inr ()
      \<longrightarrow> len (snd (Parameter_load d q)) = 1) \<and>
   (map_of d ''ExploredData'' = Some t \<and> map_of t ''data'' = Some col \<and>
    fst (Parameter_load d q) = Inr ()
      \<longrightarrow> len (snd (Parameter_load d q)) = length col) \<and>
   (is_empty p
      \<longrightarrow> fst (Parameter_load (Parameter_store p) q) = Inr () \<and>
          len (snd (Parameter_load (Parameter_store p) q)) = 1 \<and>
          \<not> is_empty (snd (Parameter_load (Parameter_store p) q)))"
  by (auto simp: Parameter_load_def Parameter_store_def parameter_defs Let_def
      split: option.splits list.splits)

theorem load_sets_length_witness:
  "is_empty fresh_x \<and>
   map_of (Parameter_store fresh_x) ''ExploredData'' = None \<and>
   map_of (Parameter_store explored_x) ''ExploredData'' =
     Some [(''data'', [PFloat 1, PFloat 2, PFloat 3])] \<and>
   map_of [(''data'', [PFloat 1, PFloat 2, PFloat 3])] ''data'' = Some [PFloat 1, PFloat 2, PFloat 3] \<and>
   map_of (Parameter_store fresh_x) ''Data'' = Some [(''data'', [PNone])] \<and>
   fst (Parameter_load (Parameter_store fresh_x) single_x) = Inr () \<and>
   len (snd (Parameter_load (Parameter_store fresh_x) single_x)) = 1 \<and>
   \<not> is_empty (snd (Parameter_load (Parameter_store fresh_x) single_x)) \<and>
   fst (Parameter_load (Parameter_store explored_x) fresh_x) = Inr () \<and>
   len (snd (Parameter_load (Parameter_store explored_x) fresh_x)) = 3"
proof -
  have e: "is_empty fresh_x" by (simp add: fresh_x_def parameter_defs)
  have n: "map_of (Parameter_store fresh_x) ''ExploredData'' = None"
    by (simp add: Parameter_store_def fresh_x_def parameter_defs)
  have s: "map_of (Parameter_store explored_x) ''ExploredData'' =
     Some [(''data'', [PFloat 1, PFloat 2, PFloat 3])]"
    by (simp add: Parameter_store_def explored_x_def single_x_def fresh_x_def parameter_defs)
  have c: "map_of [(''data'', [PFloat 1, PFloat 2, PFloat 3])] ''data'' =
     Some [PFloat 1, PFloat 2, PFloat 3]" by simp
  have d: "p_data fresh_x = PNone" by (simp add: fresh_x_def)
  have r: "fst (Parameter_load (Parameter_store explored_x) fresh_x) = Inr ()"
    by (simp add: Parameter_load_def Parameter_store_def explored_x_def single_x_def fresh_x_def
        parameter_defs Let_def)
  have l: "length [PFloat 1, PFloat 2, PFloat 3] = 3" by simp
  note a = load_sets_length [of fresh_x "Parameter_store fresh_x" single_x, unfolded d]
  note b = load_sets_length [of explored_x "Parameter_store explored_x" fresh_x
      "[(''data'', [PFloat 1, PFloat 2, PFloat 3])]" "[PFloat 1, PFloat 2, PFloat 3]", unfolded l]
  show ?thesis using a b e n s c r by blast
qed

text \<open>
  C10 as stated fails on a record whose \<^verbatim>\<open>ExploredData\<close> table has no rows: \<^verbatim>\<open>__load__\<close>
  returns and the length is 0. Such a record is what \<^verbatim>\<open>__store__\<close> produces for the copy
  a worker unpickles.
\<close>

theorem load_empty_column_counterexample:
  "fst (Parameter_load
          [(''Data'', [(''data'', [PFloat 1])]), (''ExploredData'', [(''data'', [])])] fresh_x) = Inr () \<and>
   len (snd (Parameter_load
          [(''Data'', [(''data'', [PFloat 1])]), (''ExploredData'', [(''data'', [])])] fresh_x)) = 0 \<and>
   is_empty (snd (Parameter_load
          [(''Data'', [(''data'', [PFloat 1])]), (''ExploredData'', [(''data'', [])])] fresh_x)) \<and>
   Parameter_store worker_x =
     [(''Data'', [(''data'', [PFloat 1])]), (''ExploredData'', [(''data'', [])])]"
  by (simp add: worker_x_eq explored_x_def single_x_def fresh_x_def Parameter_load_def
      Parameter_store_def parameter_defs Let_def)

section \<open>Selecting an exploration point\<close>

text \<open>
  Claim C4, amended. For every exploring Parameter that holds its \<open>n\<close> exploration values
  and every \<open>i\<close> in \<open>[0, n)\<close>, \<^verbatim>\<open>set_parameter_access(i)\<close> followed by \<^verbatim>\<open>get()\<close> returns the
  \<open>i\<close>-th exploration value; \<^verbatim>\<open>set_parameter_access(n)\<close> with \<open>n\<close> at or above the length
  raises the ValueError of the method (the spec's IndexError) and changes nothing.
\<close>

theorem select_point_then_get:
  assumes "p_explored_data p = Tuple xs" and "length xs = len p" and "is_array p"
    and "0 \<le> i" and "i < int (len p)" and "int (len p) \<le> n"
  shows "fst (set_parameter_access i p) = Inr () \<and>
         fst (get (snd (set_parameter_access i p))) = Inr (xs ! nat i) \<and>
         set_parameter_access n p = (Inl ValueError_parameter_access, p)"
  using assms
  by (simp add: set_parameter_access_def get_def parameter_defs)

theorem select_point_then_get_witness:
  "p_explored_data explored_x = Tuple [PFloat 1, PFloat 2, PFloat 3] \<and>
   length [PFloat 1, PFloat 2, PFloat 3] = len explored_x \<and> is_array explored_x \<and>
   (0::int) \<le> 2 \<and> 2 < int (len explored_x) \<and> int (len explored_x) \<le> 3 \<and>
   fst (set_parameter_access 2 explored_x) = Inr () \<and>
   fst (get (snd (set_parameter_access 2 explored_x))) = Inr (PFloat 3) \<and>
   set_parameter_access 3 explored_x = (Inl ValueError_parameter_access, explored_x)"
proof -
  have h1: "p_explored_data explored_x = Tuple [PFloat 1, PFloat 2, PFloat 3]"
    by (simp add: explored_x_def single_x_def fresh_x_def)
  have h2: "length [PFloat 1, PFloat 2, PFloat 3] = len explored_x"
    by (simp add: explored_x_def single_x_def fresh_x_def parameter_defs)
  have h3: "is_array explored_x"
    by (simp add: explored_x_def single_x_def fresh_x_def parameter_defs)
  have h4: "(0::int) \<le> 2" by simp
  have h5: "2 < int (len explored_x)"
    by (simp add: explored_x_def single_x_def fresh_x_def parameter_defs)
  have h6: "int (len explored_x) \<le> 3"
    by (simp add: explored_x_def single_x_def fresh_x_def parameter_defs)
  have v: "[PFloat 1, PFloat 2, PFloat 3] ! nat 2 = PFloat 3" by (simp add: nth_Cons')
  show ?thesis
    using select_point_then_get [OF h1 h2 h3 h4 h5 h6, unfolded v] h1 h2 h3 h4 h5 h6 by blast
qed

text \<open>
  C4 as stated fails below the range: the method guards \<open>n \<ge> length\<close> only, and the tuple
  counts \<open>-1\<close> from its end, so \<^verbatim>\<open>set_parameter_access(-1)\<close> on three points returns and
  selects the last value.
\<close>

theorem select_point_negative_counterexample:
  "len explored_x = 3 \<and>
   fst (set_parameter_access (- 1) explored_x) = Inr () \<and>
   fst (get (snd (set_parameter_access (- 1) explored_x))) = Inr (PFloat 3)"
  by (simp add: set_parameter_access_def get_def explored_x_def single_x_def fresh_x_def
      parameter_defs)

section \<open>Point transfer\<close>

text \<open>
  Claim C6, amended. For every exploring Parameter that holds its explored values and is
  transferred with \<^verbatim>\<open>_fullcopy = False\<close>, the snapshot of \<^verbatim>\<open>__getstate__\<close> carries the empty
  tuple in place of the explored values and keeps the current value. A point \<open>i\<close> in
  \<open>[0, length)\<close> selected with \<^verbatim>\<open>set_parameter_access(i)\<close> before the snapshot is taken is what
  \<^verbatim>\<open>get()\<close> returns on the container rebuilt from the snapshot; on the rebuilt container
  itself \<^verbatim>\<open>set_parameter_access(i)\<close> raises IndexError and changes nothing.
\<close>

theorem point_transfer:
  assumes "p_explored_data p = Tuple xs" and "length xs = len p" and "is_array p"
    and "\<not> p_fullcopy p" and "0 \<le> i" and "i < int (len p)"
  shows "p_explored_data (getstate p) = Tuple [] \<and>
         fst (get (setstate (getstate (snd (set_parameter_access i p))))) = Inr (xs ! nat i) \<and>
         set_parameter_access i (setstate (getstate p)) =
           (Inl IndexError, setstate (getstate p))"
  using assms
  by (simp add: set_parameter_access_def get_def getstate_def setstate_def parameter_defs)

theorem point_transfer_witness:
  "p_explored_data explored_x = Tuple [PFloat 1, PFloat 2, PFloat 3] \<and>
   length [PFloat 1, PFloat 2, PFloat 3] = len explored_x \<and> is_array explored_x \<and>
   \<not> p_fullcopy explored_x \<and> (0::int) \<le> 2 \<and> 2 < int (len explored_x) \<and>
   p_explored_data (getstate explored_x) = Tuple [] \<and>
   fst (get (setstate (getstate (snd (set_parameter_access 2 explored_x))))) = Inr (PFloat 3) \<and>
   set_parameter_access 2 (setstate (getstate explored_x)) =
     (Inl IndexError, setstate (getstate explored_x))"
proof -
  have h1: "p_explored_data explored_x = Tuple [PFloat 1, PFloat 2, PFloat 3]"
    by (simp add: explored_x_def single_x_def fresh_x_def)
  have h2: "length [PFloat 1, PFloat 2, PFloat 3] = len explored_x"
    by (simp add: explored_x_def single_x_def fresh_x_def parameter_defs)
  have h3: "is_array explored_x"
    by (simp add: explored_x_def single_x_def fresh_x_def parameter_defs)
  have h4: "\<not> p_fullcopy explored_x"
    by (simp add: explored_x_def single_x_def fresh_x_def)
  have h5: "(0::int) \<le> 2" by simp
  have h6: "2 < int (len explored_x)"
    by (simp add: explored_x_def single_x_def fresh_x_def parameter_defs)
  have v: "[PFloat 1, PFloat 2, PFloat 3] ! nat 2 = PFloat 3" by (simp add: nth_Cons')
  show ?thesis
    using point_transfer [OF h1 h2 h3 h4 h5 h6, unfolded v] h1 h2 h3 h4 h5 h6 by blast
qed

text \<open>
  C6 as stated fails on the rebuilt container: its tuple of explored values is empty, so
  \<^verbatim>\<open>set_parameter_access(0)\<close> raises IndexError and populates nothing.
\<close>

theorem select_point_on_worker_counterexample:
  "is_array explored_x \<and> \<not> p_fullcopy explored_x \<and>
   worker_x = setstate (getstate explored_x) \<and>
   p_explored_data worker_x = Tuple [] \<and>
   set_parameter_access 0 worker_x = (Inl IndexError, worker_x)"
  by (simp add: worker_x_eq set_parameter_access_def getstate_def setstate_def
      explored_x_def single_x_def fresh_x_def parameter_defs)

section \<open>Validation of exploration candidates\<close>

lemma sanity_loop_Inr:
  "sanity_loop S c d vs acc = Inr t \<longleftrightarrow>
     (t = acc @ map convert_data vs \<and>
      (\<forall>v \<in> set vs. is_supported_data S c (convert_data v) \<and>
                     values_of_same_type (convert_data v) d))"
  by (induction vs arbitrary: acc) (auto simp: Let_def)

lemma sanity_loop_Inl:
  "sanity_loop S c d vs acc = Inl e \<Longrightarrow> e = NameError_key \<or> e = TypeError_not_same_type"
  by (induction vs arbitrary: acc) (auto simp: Let_def split: if_splits)

lemma py_type_convert_data: "py_type (convert_data v) = py_type v"
  by (cases v) simp_all

text \<open>The dtype and shape comparisons are never reached: only \<^verbatim>\<open>type()\<close> is compared.\<close>

lemma values_of_same_type_iff: "values_of_same_type a b \<longleftrightarrow> py_type a = py_type b"
  by (simp add: values_of_same_type_def equals_np_array_def)

text \<open>
  What \<^verbatim>\<open>explore\<close> does on an unlocked container that is no array: it succeeds exactly
  when every candidate is accepted by the classifier and has the Python type of the
  representative, and a call that raises leaves the container as it was.
\<close>

lemma explore_succeeds_iff:
  assumes "\<not> is_locked p" and "\<not> is_array p"
  shows "fst (explore S vs p) = Inr () \<longleftrightarrow>
           (\<forall>v \<in> set vs. is_supported_data S (p_class p) (convert_data v) \<and>
                          py_type v = py_type (p_data p))"
proof -
  have "fst (explore S vs p) = Inr () \<longleftrightarrow> (\<exists>t. data_sanity_checks S p vs = Inr t)"
    using assms by (auto simp: explore_def split: sum.splits)
  then show ?thesis
    by (simp add: data_sanity_checks_def sanity_loop_Inr values_of_same_type_iff
        py_type_convert_data)
qed

lemma explore_failure_unchanged:
  assumes "fst (explore S vs p) = Inl e"
  shows "snd (explore S vs p) = p"
  using assms by (auto simp: explore_def split: if_splits sum.splits)

text \<open>
  Claim C2 says that \<^verbatim>\<open>explore\<close> succeeds only when every candidate has the type and shape
  of the representative, and that a candidate the classifier rejects raises the TypeError
  for unsupported types. On the code, a container holding a float array of shape (2)
  accepts an integer array of shape (3) as its exploration, and a list offered to a
  container holding 1.0 raises NameError, from the unbound name in the message of that
  TypeError.
\<close>

theorem explore_accepts_other_shape:
  "explore PARAMETER_SUPPORTED_DATA [PArray Dt_int [3] [PInt 1, PInt 2, PInt 3] True] array_x =
     (Inr (), array_x\<lparr>p_length := 1,
                      p_explored_data := Tuple [PArray Dt_int [3] [PInt 1, PInt 2, PInt 3] False],
                      p_locked := True\<rparr>) \<and>
   explore PARAMETER_SUPPORTED_DATA [PList [PInt 1]] single_x = (Inl NameError_key, single_x)"
  by (simp add: explore_def data_sanity_checks_def array_x_def single_x_def fresh_x_def
      parameter_defs classifier_defs Let_def)

section \<open>The pickle fallback\<close>

lemma loads_loop_dumps: "loads_loop (map pickle_dumps vs) acc = Inr (acc @ vs)"
  by (induction vs arbitrary: acc) (simp_all add: pickle_dumps_def)

text \<open>
  For a value the native classifier rejects, the record carries the marked column, loading
  returns and rebuilds the value, and an array gets its explored values and length back.
  A container that is no array gets no length: \<^verbatim>\<open>PickleParameter.__load__\<close> assigns
  \<^verbatim>\<open>_length\<close> only under \<^verbatim>\<open>ExploredData\<close>, where \<^verbatim>\<open>Parameter.__load__\<close> has an \<^verbatim>\<open>else\<close>
  branch that assigns 1.
\<close>

lemma pickle_round_trip:
  assumes "\<not> Parameter_is_supported_data S (p_data p)"
  shows "map fst (the (map_of (PickleParameter_store S p) ''Data'')) = [''data__pckl__'']"
    and "fst (PickleParameter_load (PickleParameter_store S p) q) = Inr ()"
    and "p_data (snd (PickleParameter_load (PickleParameter_store S p) q)) = p_data p"
    and "is_array p \<Longrightarrow> len (snd (PickleParameter_load (PickleParameter_store S p) q)) =
           length (explored_items (p_explored_data p))"
    and "is_array p \<Longrightarrow> p_explored_data (snd (PickleParameter_load (PickleParameter_store S p) q)) =
           Tuple (explored_items (p_explored_data p))"
    and "\<not> is_array p \<Longrightarrow> len (snd (PickleParameter_load (PickleParameter_store S p) q)) = len q"
  using assms
  by (simp_all add: PickleParameter_store_def PickleParameter_load_def
      PickleParameter_identifier_def pickle_dumps_def loads_loop_dumps
      parameter_defs Let_def)

text \<open>
  Claim C5 says that a PickleParameter holding a value the native classifier rejects comes
  back from store and load with length 1 when the record has no \<^verbatim>\<open>ExploredData\<close>. On the
  code, \<^verbatim>\<open>PickleParameter('x', [1, 2])\<close> has length 1, its record has the single column
  \<^verbatim>\<open>data__pckl__\<close>, and a fresh PickleParameter that loads the record holds the list and
  has length 0. A plain Parameter refuses the list in \<^verbatim>\<open>set\<close>.
\<close>

theorem pickle_load_leaves_length:
  "len pickle_x = 1 \<and>
   PickleParameter_store PARAMETER_SUPPORTED_DATA pickle_x =
     [(''Data'', [(''data__pckl__'', [PPickle (PList [PInt 1, PInt 2])])])] \<and>
   PickleParameter_load (PickleParameter_store PARAMETER_SUPPORTED_DATA pickle_x) fresh_pickle_x =
     (Inr (), fresh_pickle_x\<lparr>p_data := PList [PInt 1, PInt 2]\<rparr>) \<and>
   len (snd (PickleParameter_load
               (PickleParameter_store PARAMETER_SUPPORTED_DATA pickle_x) fresh_pickle_x)) = 0 \<and>
   Parameter_set PARAMETER_SUPPORTED_DATA (PList [PInt 1, PInt 2]) fresh_x =
     (Inl AttributeError_unsupported_data_type, fresh_x)"
  by (simp add: PickleParameter_store_def PickleParameter_load_def pickle_x_def fresh_pickle_x_def
      fresh_x_def PickleParameter_identifier_def pickle_dumps_def Parameter_set_def
      parameter_defs classifier_defs Let_def)

section \<open>Empty containers\<close>

text \<open>
  Claim C9, amended. For every Parameter with no data (length 0), \<^verbatim>\<open>shrink()\<close> raises the
  TypeError for an empty Parameter (the spec's EmptyContainerError) and changes nothing.
  \<^verbatim>\<open>explore(values)\<close> has no check for emptiness and never raises that error: on a locked
  container it raises ParameterLockedException, on an unlocked one \<^verbatim>\<open>explore([])\<close>
  succeeds, leaving length 0, the empty tuple and the lock set, and whenever
  \<^verbatim>\<open>explore(values)\<close> raises, the container is unchanged.
\<close>

theorem empty_container_shrink_explore:
  assumes "is_empty p"
  shows "shrink p = (Inl TypeError_shrink_empty, p) \<and>
         fst (explore S vs p) \<noteq> Inl TypeError_shrink_empty \<and>
         (is_locked p \<longrightarrow> explore S vs p = (Inl ParameterLockedException, p)) \<and>
         (\<not> is_locked p \<longrightarrow>
            explore S [] p =
              (Inr (), p\<lparr>p_length := 0, p_explored_data := Tuple [], p_locked := True\<rparr>)) \<and>
         (\<forall>e. fst (explore S vs p) = Inl e \<longrightarrow> snd (explore S vs p) = p)"
proof -
  have a: "shrink p = (Inl TypeError_shrink_empty, p)"
    using assms by (simp add: shrink_def)
  have b: "fst (explore S vs p) \<noteq> Inl TypeError_shrink_empty"
    by (auto simp: explore_def data_sanity_checks_def split: sum.splits dest: sanity_loop_Inl)
  have c: "is_locked p \<longrightarrow> explore S vs p = (Inl ParameterLockedException, p)"
    by (simp add: explore_def)
  have d: "\<not> is_locked p \<longrightarrow>
            explore S [] p =
              (Inr (), p\<lparr>p_length := 0, p_explored_data := Tuple [], p_locked := True\<rparr>)"
    using assms by (simp add: explore_def data_sanity_checks_def parameter_defs)
  have e: "\<forall>e. fst (explore S vs p) = Inl e \<longrightarrow> snd (explore S vs p) = p"
    by (auto simp: explore_def split: if_splits sum.splits)
  from a b c d e show ?thesis by blast
qed

theorem empty_container_shrink_explore_witness:
  "is_empty fresh_x \<and> \<not> is_locked fresh_x \<and>
   shrink fresh_x = (Inl TypeError_shrink_empty, fresh_x) \<and>
   fst (explore PARAMETER_SUPPORTED_DATA [PFloat 1] fresh_x) \<noteq> Inl TypeError_shrink_empty \<and>
   explore PARAMETER_SUPPORTED_DATA [] fresh_x =
     (Inr (), fresh_x\<lparr>p_length := 0, p_explored_data := Tuple [], p_locked := True\<rparr>)"
proof -
  have h: "is_empty fresh_x" by (simp add: fresh_x_def parameter_defs)
  have u: "\<not> is_locked fresh_x" by (simp add: fresh_x_def parameter_defs)
  show ?thesis
    using empty_container_shrink_explore [OF h, of PARAMETER_SUPPORTED_DATA "[PFloat 1]"] h u
    by blast
qed

text \<open>
  C9 as stated fails for \<^verbatim>\<open>explore\<close>: on \<^verbatim>\<open>Parameter('x')\<close>, \<^verbatim>\<open>explore([])\<close> returns and
  locks the container, and \<^verbatim>\<open>explore([1.0])\<close> raises the TypeError for a type mismatch,
  not the one for an empty Parameter.
\<close>

theorem explore_on_empty_counterexample:
  "is_empty fresh_x \<and>
   fst (explore PARAMETER_SUPPORTED_DATA [] fresh_x) = Inr () \<and>
   snd (explore PARAMETER_SUPPORTED_DATA [] fresh_x) \<noteq> fresh_x \<and>
   is_locked (snd (explore PARAMETER_SUPPORTED_DATA [] fresh_x)) \<and>
   explore PARAMETER_SUPPORTED_DATA [PFloat 1] fresh_x = (Inl TypeError_not_same_type, fresh_x)"
  by (simp add: explore_def data_sanity_checks_def fresh_x_def parameter_defs classifier_defs Let_def)

section \<open>Constructing a SimpleResult\<close>

lemma str_nat_0: "str_nat 0 = ''0''"
  by (simp add: str_nat.simps [of 0])

lemma str_nat_1: "str_nat (Suc 0) = ''1''"
  by (simp add: str_nat.simps [of "Suc 0"])

text \<open>
  Claim C8, amended. Constructing \<^verbatim>\<open>SimpleResult(fullname, a0, a1, comment="c")\<close> with two
  items of a bulk kind (numpy array, ObjectTable or DataFrame) succeeds and yields a result
  whose field \<^verbatim>\<open>res0\<close> is \<open>a0\<close>, whose field \<^verbatim>\<open>res1\<close> is \<open>a1\<close> and whose comment is
  \<^verbatim>\<open>"c"\<close>; the comment is in the comment field and the data items are \<^verbatim>\<open>res0\<close> and
  \<^verbatim>\<open>res1\<close> only. With the floats 1.0 and 2.0 as items the constructor raises the TypeError
  for an unsupported result.
\<close>

theorem SimpleResult_init_bulk_items:
  assumes "is_bulk_item a0" and "is_bulk_item a1"
  shows "(\<exists>r. SimpleResult_init fullname [a0, a1] [(''comment'', PStr ''c'')] = Inr r \<and>
              SimpleResult_getattr ''res0'' r = Inr a0 \<and>
              SimpleResult_getattr ''res1'' r = Inr a1 \<and>
              SimpleResult_getattr ''comment'' r = Inr (PStr ''c'') \<and>
              r_comment r = PStr ''c'' \<and>
              map fst (r_data r) = [''res0'', ''res1'']) \<and>
         SimpleResult_init fullname [PFloat 1, PFloat 2] [(''comment'', PStr ''c'')] =
           Inl TypeError_result_not_supported"
  using assms
  by (simp add: SimpleResult_init_def SimpleResult_set_def set_single_def SimpleResult_getattr_def
      str_nat_0 str_nat_1 is_bulk_item_def Let_def)

theorem SimpleResult_init_bulk_items_witness:
  "is_bulk_item (PArray Dt_float [1] [PFloat 1] True) \<and>
   is_bulk_item (PArray Dt_float [1] [PFloat 2] True) \<and>
   (\<exists>r. SimpleResult_init ''results.run''
           [PArray Dt_float [1] [PFloat 1] True, PArray Dt_float [1] [PFloat 2] True]
           [(''comment'', PStr ''c'')] = Inr r \<and>
        SimpleResult_getattr ''res0'' r = Inr (PArray Dt_float [1] [PFloat 1] True) \<and>
        SimpleResult_getattr ''res1'' r = Inr (PArray Dt_float [1] [PFloat 2] True) \<and>
        SimpleResult_getattr ''comment'' r = Inr (PStr ''c'') \<and>
        r_comment r = PStr ''c'' \<and>
        map fst (r_data r) = [''res0'', ''res1''])"
proof -
  have h1: "is_bulk_item (PArray Dt_float [1] [PFloat 1] True)" by (simp add: is_bulk_item_def)
  have h2: "is_bulk_item (PArray Dt_float [1] [PFloat 2] True)" by (simp add: is_bulk_item_def)
  show ?thesis
    using SimpleResult_init_bulk_items [OF h1 h2, of "''results.run''"] h1 h2 by blast
qed

text \<open>
  C8 as stated fails: \<^verbatim>\<open>set_single\<close> accepts bulk items only, so
  \<^verbatim>\<open>SimpleResult('results.run', 1.0, 2.0, comment="c")\<close> raises and builds no result.
\<close>

theorem SimpleResult_init_floats_counterexample:
  "SimpleResult_init ''results.run'' [PFloat 1, PFloat 2] [(''comment'', PStr ''c'')] =
     Inl TypeError_result_not_supported"
  by (simp add: SimpleResult_init_def SimpleResult_set_def set_single_def
      str_nat_0 is_bulk_item_def Let_def)

end
